theory Spec2Isabelle
  imports Complex_Main
begin

section \<open>Risk calculations of the SANBI Ecosystem Risk Atlas\<close>

text \<open>
  A shallow embedding of \<^verbatim>\<open>src/utils/risk_calculations.py\<close> and of the constant
  tables of \<^verbatim>\<open>src/app/config.py\<close> it reads.

  Conventions of the embedding:
  \<^item> a Python \<^verbatim>\<open>float\<close> argument is a \<^typ>\<open>real\<close>: comparisons and arithmetic are the
    exact ones, and the decimal literals of the source denote the decimal fractions
    they spell (no rounding, no NaN, no infinity);
  \<^item> a Python \<^verbatim>\<open>int\<close> is an \<^typ>\<open>int\<close>, a \<^verbatim>\<open>str\<close> is a \<^typ>\<open>string\<close>;
  \<^item> a \<^verbatim>\<open>dict\<close> is an association list in insertion order, read with \<open>map_of\<close>;
  \<^item> an exception is the \<open>Inl\<close> side of a sum type.
\<close>

subsection \<open>Python values and dictionaries\<close>

datatype pyval = PStr string | PInt int | PFloat real | PList "string list"

type_synonym pydict = "(string \<times> pyval) list"

datatype py_error = ZeroDivisionError

text \<open>\<^verbatim>\<open>d.get(k, default)\<close>\<close>

definition dict_get :: "(string \<times> 'v) list \<Rightarrow> string \<Rightarrow> 'v \<Rightarrow> 'v" where
  "dict_get d k dflt = (case map_of d k of None \<Rightarrow> dflt | Some v \<Rightarrow> v)"

text \<open>\<^verbatim>\<open>d[k] = v\<close>: an existing key keeps its position, a new one goes last.\<close>

fun dict_set :: "(string \<times> 'v) list \<Rightarrow> string \<Rightarrow> 'v \<Rightarrow> (string \<times> 'v) list" where
  "dict_set [] k v = [(k, v)]"
| "dict_set ((k', v') # d) k v = (if k' = k then (k, v) # d else (k', v') # dict_set d k v)"

text \<open>\<^verbatim>\<open>a / b\<close> on floats raises when the divisor is zero.\<close>

definition py_div :: "real \<Rightarrow> real \<Rightarrow> py_error + real" where
  "py_div a b = (if b = 0 then Inl ZeroDivisionError else Inr (a / b))"

subsection \<open>Configuration tables (\<^verbatim>\<open>app/config.py\<close>)\<close>

definition ECOSYSTEM_RISK_THRESHOLDS :: "(string \<times> (string \<times> real) list) list" where
  "ECOSYSTEM_RISK_THRESHOLDS =
    [(''habitat_loss'',
        [(''critical'', 4.0), (''high'', 2.0), (''moderate'', 1.0), (''low'', 0.5),
         (''minimal'', 0.1)]),
     (''annual_decline'',
        [(''critical'', 0.4), (''high'', 0.2), (''moderate'', 0.1), (''low'', 0.05),
         (''minimal'', 0.01)]),
     (''transformation'',
        [(''critical'', 50.0), (''high'', 25.0), (''moderate'', 15.0), (''low'', 10.0),
         (''minimal'', 5.0)]),
     (''protection_gap'',
        [(''critical'', 80.0), (''high'', 60.0), (''moderate'', 40.0), (''low'', 20.0),
         (''minimal'', 10.0)])]"

definition THREAT_LEVELS :: "(string \<times> pydict) list" where
  "THREAT_LEVELS =
    [(''CR'', [(''name'', PStr ''Critically Endangered''), (''color'', PStr ''#d73027''),
               (''priority'', PInt 5)]),
     (''EN'', [(''name'', PStr ''Endangered''), (''color'', PStr ''#f46d43''),
               (''priority'', PInt 4)]),
     (''VU'', [(''name'', PStr ''Vulnerable''), (''color'', PStr ''#fdae61''),
               (''priority'', PInt 3)]),
     (''NT'', [(''name'', PStr ''Near Threatened''), (''color'', PStr ''#fee08b''),
               (''priority'', PInt 2)]),
     (''LC'', [(''name'', PStr ''Least Concern''), (''color'', PStr ''#abdda4''),
               (''priority'', PInt 1)]),
     ('''', [(''name'', PStr ''Data Deficient''), (''color'', PStr ''#cccccc''),
             (''priority'', PInt 0)])]"

subsection \<open>Threshold classification\<close>

text \<open>
  \<^verbatim>\<open>value >= thresholds.get(k, float('inf'))\<close>: with the key absent the comparison is
  against infinity, which no real value reaches.
\<close>

definition reaches :: "real \<Rightarrow> (string \<times> real) list \<Rightarrow> string \<Rightarrow> bool" where
  "reaches v thresholds k = (case map_of thresholds k of None \<Rightarrow> False | Some c \<Rightarrow> v \<ge> c)"

definition get_risk_level_by_threshold :: "string \<Rightarrow> real \<Rightarrow> string" where
  "get_risk_level_by_threshold risk_type v =
    (let thresholds = dict_get ECOSYSTEM_RISK_THRESHOLDS risk_type [] in
     if thresholds = [] then ''minimal''
     else if reaches v thresholds ''critical'' then ''critical''
     else if reaches v thresholds ''high'' then ''high''
     else if reaches v thresholds ''moderate'' then ''moderate''
     else if reaches v thresholds ''low'' then ''low''
     else ''minimal'')"

subsection \<open>Catalogues of threat and protection codes\<close>

definition threat_descriptions :: "(string \<times> string) list" where
  "threat_descriptions =
    [(''CR'', ''Facing extremely high risk of extinction in the wild''),
     (''EN'', ''Facing very high risk of extinction in the wild''),
     (''VU'', ''Facing high risk of extinction in the wild''),
     (''NT'', ''Close to qualifying for threatened category''),
     (''LC'', ''Widespread and abundant, lowest risk category'')]"

definition get_threat_level_info :: "string \<Rightarrow> pydict" where
  "get_threat_level_info threat_code =
    (let base_info = dict_get THREAT_LEVELS threat_code (dict_get THREAT_LEVELS '''' []) in
     dict_set
       (dict_set base_info ''description''
          (PStr (dict_get threat_descriptions threat_code
                   ''Classification pending or data deficient'')))
       ''code'' (PStr threat_code))"

definition protection_info :: "(string \<times> pydict) list" where
  "protection_info =
    [(''WP'', [(''name'', PStr ''Well Protected''), (''color'', PStr ''#2166ac''),
               (''description'', PStr ''Exceeds biodiversity conservation target''),
               (''status'', PStr ''success'')]),
     (''MP'', [(''name'', PStr ''Moderately Protected''), (''color'', PStr ''#abdda4''),
               (''description'', PStr ''50-99% of biodiversity target protected''),
               (''status'', PStr ''moderate'')]),
     (''PP'', [(''name'', PStr ''Poorly Protected''), (''color'', PStr ''#fdae61''),
               (''description'', PStr ''5-49% of biodiversity target protected''),
               (''status'', PStr ''warning'')]),
     (''NP'', [(''name'', PStr ''Not Protected''), (''color'', PStr ''#d73027''),
               (''description'', PStr ''Less than 5% of biodiversity target protected''),
               (''status'', PStr ''critical'')])]"

definition get_protection_level_info :: "string \<Rightarrow> pydict" where
  "get_protection_level_info protection_code =
    dict_get protection_info protection_code
      [(''name'', PStr ''Unknown''), (''color'', PStr ''#cccccc''),
       (''description'', PStr ''Protection status unknown''),
       (''status'', PStr ''unknown'')]"

subsection \<open>Composite risk score\<close>

definition iucn_scores :: "(string \<times> int) list" where
  "iucn_scores = [(''CR'', 50), (''EN'', 30), (''VU'', 15), (''NT'', 5), (''LC'', 0)]"

definition calculate_composite_risk_score :: "string \<Rightarrow> real \<Rightarrow> real \<Rightarrow> int" where
  "calculate_composite_risk_score iucn_code annual_decline transformation_pct =
    (let iucn_score = dict_get iucn_scores iucn_code 0;
         decline_score =
           (if annual_decline > 0.3 then 25
            else if annual_decline > 0.2 then 15
            else if annual_decline > 0.1 then 10
            else if annual_decline > 0.05 then 5
            else 0);
         transformation_score =
           (if transformation_pct > 50 then 25
            else if transformation_pct > 25 then 15
            else if transformation_pct > 15 then 10
            else 0)
     in iucn_score + decline_score + transformation_score)"

subsection \<open>Colour of a risk level\<close>

definition RISK_COLORS :: "(string \<times> string) list" where
  "RISK_COLORS =
    [(''critical'', ''#d73027''), (''high'', ''#f46d43''), (''moderate'', ''#fdae61''),
     (''low'', ''#fee08b''), (''minimal'', ''#abdda4''), (''success'', ''#2166ac'')]"

definition get_risk_color_by_threshold :: "string \<Rightarrow> real \<Rightarrow> string" where
  "get_risk_color_by_threshold risk_type v =
    (let risk_level = get_risk_level_by_threshold risk_type v in
     dict_get RISK_COLORS risk_level ''#cccccc'')"

subsection \<open>Conservation urgency\<close>

definition iucn_urgency :: "(string \<times> int) list" where
  "iucn_urgency = [(''CR'', 4), (''EN'', 3), (''VU'', 2), (''NT'', 1), (''LC'', 0)]"

definition protection_urgency :: "(string \<times> int) list" where
  "protection_urgency = [(''NP'', 2), (''PP'', 1), (''MP'', 0), (''WP'', - 1)]"

definition categorize_ecosystem_urgency :: "string \<Rightarrow> real \<Rightarrow> real \<Rightarrow> string \<Rightarrow> pydict" where
  "categorize_ecosystem_urgency iucn_code annual_decline current_natural protection_level =
    (let s0 = 0;
         s1 = s0 + dict_get iucn_urgency iucn_code 0;
         s2 = (if annual_decline > 0.3 then s1 + 3
               else if annual_decline > 0.1 then s1 + 2
               else if annual_decline > 0.05 then s1 + 1
               else s1);
         s3 = (if current_natural < 30 then s2 + 3
               else if current_natural < 50 then s2 + 2
               else if current_natural < 70 then s2 + 1
               else s2);
         urgency_score = s3 + dict_get protection_urgency protection_level 0;
         (category, color, timeframe, actions) =
           (if urgency_score \<ge> 8 then
              (''Emergency'', ''#8B0000'', ''Immediate (0-1 years)'',
               [''Emergency intervention'', ''Immediate threat mitigation'',
                ''Expert assessment''])
            else if urgency_score \<ge> 6 then
              (''Critical'', ''#d73027'', ''Urgent (1-3 years)'',
               [''Priority conservation'', ''Threat assessment'', ''Management plan''])
            else if urgency_score \<ge> 4 then
              (''High'', ''#f46d43'', ''High priority (3-5 years)'',
               [''Active management'', ''Monitoring program'', ''Threat reduction''])
            else if urgency_score \<ge> 2 then
              (''Moderate'', ''#fdae61'', ''Regular monitoring (5-10 years)'',
               [''Regular monitoring'', ''Preventive measures'', ''Research needs''])
            else
              (''Low'', ''#abdda4'', ''Stable management'',
               [''Maintain current protection'', ''Periodic assessment'']))
     in [(''category'', PStr category), (''color'', PStr color),
         (''urgency_score'', PInt urgency_score), (''timeframe'', PStr timeframe),
         (''recommended_actions'', PList actions)])"

subsection \<open>Fixed-point formatting\<close>

text \<open>
  \<^verbatim>\<open>f"{x:.1f}"\<close> and \<^verbatim>\<open>f"{x:.2f}"\<close>: the sign, the integer part in decimal, a point and
  \<open>prec\<close> fractional digits, the value rounded to the nearest multiple of the last
  digit's unit, ties to the even digit. A negative value keeps its sign when it rounds
  to zero.
\<close>

definition round_half_even :: "real \<Rightarrow> int" where
  "round_half_even x =
    (let f = \<lfloor>x\<rfloor>; r = x - of_int f in
     if r < 1 / 2 then f else if r > 1 / 2 then f + 1 else if even f then f else f + 1)"

definition digit_char :: "nat \<Rightarrow> char" where
  "digit_char d = ''0123456789'' ! (d mod 10)"

fun decimal :: "nat \<Rightarrow> string" where
  "decimal n = (if n < 10 then [digit_char n] else decimal (n div 10) @ [digit_char (n mod 10)])"

declare decimal.simps [simp del]

definition zero_pad :: "nat \<Rightarrow> string \<Rightarrow> string" where
  "zero_pad w s = replicate (w - length s) (CHR ''0'') @ s"

definition format_fixed :: "nat \<Rightarrow> real \<Rightarrow> string" where
  "format_fixed prec x =
    (let q = nat (round_half_even (\<bar>x\<bar> * 10 ^ prec)) in
     (if x < 0 then ''-'' else []) @ decimal (q div 10 ^ prec) @ ''.''
       @ zero_pad prec (decimal (q mod 10 ^ prec)))"

subsection \<open>Performance against the national average\<close>

definition calculate_performance_vs_national ::
  "real \<Rightarrow> real \<Rightarrow> string \<Rightarrow> py_error + pydict" where
  "calculate_performance_vs_national local_value national_value metric_type =
    (if national_value = 0 then
       Inr [(''category'', PStr ''No Comparison''), (''color'', PStr ''#cccccc''),
            (''delta'', PInt 0), (''delta_formatted'', PStr ''N/A''),
            (''performance_ratio'', PFloat 1.0)]
     else
       let delta = local_value - national_value in
       case py_div local_value national_value of
         Inl e \<Rightarrow> Inl e
       | Inr ratio \<Rightarrow>
           let better_when_higher =
                 (metric_type \<in> set [''habitat'', ''protection'', ''natural'']);
               better_when_lower =
                 (metric_type \<in> set [''threat'', ''decline'', ''transformation'', ''loss'']);
               (category, color) =
                 (if better_when_lower then
                    (if ratio \<le> 0.7 then (''Much Better'', ''#2166ac'')
                     else if ratio \<le> 0.9 then (''Better'', ''#abdda4'')
                     else if ratio \<le> 1.1 then (''Similar'', ''#ffffbf'')
                     else if ratio \<le> 1.3 then (''Worse'', ''#fdae61'')
                     else (''Much Worse'', ''#d73027''))
                  else if better_when_higher then
                    (if ratio \<ge> 1.3 then (''Much Better'', ''#2166ac'')
                     else if ratio \<ge> 1.1 then (''Better'', ''#abdda4'')
                     else if ratio \<ge> 0.9 then (''Similar'', ''#ffffbf'')
                     else if ratio \<ge> 0.7 then (''Worse'', ''#fdae61'')
                     else (''Much Worse'', ''#d73027''))
                  else
                    (if \<bar>ratio - 1\<bar> \<le> 0.1 then (''Similar'', ''#ffffbf'')
                     else if \<bar>ratio - 1\<bar> \<le> 0.3 then (''Moderate Difference'', ''#fdae61'')
                     else (''Large Difference'', ''#d73027'')));
               delta_sign = (if delta > 0 then ''+'' else []);
               delta_formatted =
                 (if \<bar>delta\<bar> \<ge> 1 then delta_sign @ format_fixed 1 delta @ ''pp''
                  else delta_sign @ format_fixed 2 delta @ ''pp'')
           in Inr [(''category'', PStr category), (''color'', PStr color),
                   (''delta'', PFloat delta), (''delta_formatted'', PStr delta_formatted),
                   (''performance_ratio'', PFloat ratio),
                   (''local_value'', PFloat local_value),
                   (''national_value'', PFloat national_value)])"

subsection \<open>Notions used to state the properties\<close>

text \<open>
  The severity order \<open>critical > high > moderate > low > minimal\<close> as a rank, the order
  in which the docstring of \<^verbatim>\<open>get_risk_level_by_threshold\<close> lists its results.
\<close>

definition severity_rank :: "string \<Rightarrow> nat" where
  "severity_rank l =
    (if l = ''critical'' then 4 else if l = ''high'' then 3
     else if l = ''moderate'' then 2 else if l = ''low'' then 1 else 0)"

text \<open>The tier of a value against four given cutoffs, most severe first, inclusive.\<close>

definition tier_of :: "real \<Rightarrow> real \<Rightarrow> real \<Rightarrow> real \<Rightarrow> real \<Rightarrow> string" where
  "tier_of c h m l v =
    (if v \<ge> c then ''critical'' else if v \<ge> h then ''high''
     else if v \<ge> m then ''moderate'' else if v \<ge> l then ''low'' else ''minimal'')"

section \<open>Properties\<close>

subsection \<open>Composite risk score\<close>

lemma iucn_scores_lookup:
  "dict_get iucn_scores t 0 =
    (if t = ''CR'' then 50 else if t = ''EN'' then 30 else if t = ''VU'' then 15
     else if t = ''NT'' then 5 else 0)"
  by (simp add: dict_get_def iucn_scores_def)

text \<open>
  Claim C1. For every threat code \<open>t\<close>, annual decline \<open>d\<close> and transformation
  percentage \<open>p\<close>, the composite score is the sum of the threat score of the fixed table
  (CR 50, EN 30, VU 15, NT 5, LC 0, any other code 0), the decline score with strict bands
  (above 0.3 gives 25, above 0.2 gives 15, above 0.1 gives 10, above 0.05 gives 5, else 0)
  and the transformation score with strict bands (above 50 gives 25, above 25 gives 15,
  above 15 gives 10, else 0). At a decline of exactly 0.3 the decline contribution is 15,
  and the three sample scores are 60, 0 and 100.
\<close>

theorem composite_score_is_sum_of_bands:
  "calculate_composite_risk_score t d p =
      (if t = ''CR'' then 50 else if t = ''EN'' then 30 else if t = ''VU'' then 15
       else if t = ''NT'' then 5 else if t = ''LC'' then 0 else 0)
    + (if d > 0.3 then 25 else if d > 0.2 then 15 else if d > 0.1 then 10
       else if d > 0.05 then 5 else 0)
    + (if p > 50 then 25 else if p > 25 then 15 else if p > 15 then 10 else 0)
   \<and> calculate_composite_risk_score t 0.3 p - calculate_composite_risk_score t 0 p = 15
   \<and> calculate_composite_risk_score ''LC'' 0.3 0 = 15
   \<and> calculate_composite_risk_score ''EN'' 0.25 30 = 60
   \<and> calculate_composite_risk_score ''LC'' 0 0 = 0
   \<and> calculate_composite_risk_score ''CR'' 0.31 51 = 100"
  by (simp add: calculate_composite_risk_score_def iucn_scores_lookup Let_def)

text \<open>
  Claim C8. The composite score lies in the closed interval from 0 to 100; it is 100
  exactly when all three sub-scores are maximal (threat code CR, decline above 0.3,
  transformation above 50) and it is 0 exactly when all three are 0 (a threat code that
  scores 0, decline at most 0.05, transformation at most 15).
\<close>

theorem composite_score_range:
  "0 \<le> calculate_composite_risk_score t d p
   \<and> calculate_composite_risk_score t d p \<le> 100
   \<and> (calculate_composite_risk_score t d p = 100) = (t = ''CR'' \<and> d > 0.3 \<and> p > 50)
   \<and> (calculate_composite_risk_score t d p = 0) =
       (t \<notin> {''CR'', ''EN'', ''VU'', ''NT''} \<and> d \<le> 0.05 \<and> p \<le> 15)
   \<and> calculate_composite_risk_score ''CR'' 0.31 51 = 100
   \<and> calculate_composite_risk_score ''LC'' 0 0 = 0"
  by (auto simp add: calculate_composite_risk_score_def iucn_scores_lookup Let_def)

subsection \<open>Threshold classification\<close>

lemma thresholds_cases:
  "dict_get ECOSYSTEM_RISK_THRESHOLDS d [] =
    (if d = ''habitat_loss'' then
       [(''critical'', 4.0), (''high'', 2.0), (''moderate'', 1.0), (''low'', 0.5),
        (''minimal'', 0.1)]
     else if d = ''annual_decline'' then
       [(''critical'', 0.4), (''high'', 0.2), (''moderate'', 0.1), (''low'', 0.05),
        (''minimal'', 0.01)]
     else if d = ''transformation'' then
       [(''critical'', 50.0), (''high'', 25.0), (''moderate'', 15.0), (''low'', 10.0),
        (''minimal'', 5.0)]
     else if d = ''protection_gap'' then
       [(''critical'', 80.0), (''high'', 60.0), (''moderate'', 40.0), (''low'', 20.0),
        (''minimal'', 10.0)]
     else [])"
  by (simp add: dict_get_def ECOSYSTEM_RISK_THRESHOLDS_def)

lemma level_cases:
  "get_risk_level_by_threshold d v =
    (if d = ''habitat_loss'' then tier_of 4.0 2.0 1.0 0.5 v
     else if d = ''annual_decline'' then tier_of 0.4 0.2 0.1 0.05 v
     else if d = ''transformation'' then tier_of 50 25 15 10 v
     else if d = ''protection_gap'' then tier_of 80 60 40 20 v
     else ''minimal'')"
  by (simp add: get_risk_level_by_threshold_def thresholds_cases reaches_def tier_of_def)

lemma rank_tier:
  "severity_rank (tier_of c h m l v) =
    (if v \<ge> c then 4 else if v \<ge> h then 3 else if v \<ge> m then 2
     else if v \<ge> l then 1 else 0)"
  by (simp add: severity_rank_def tier_of_def)

lemma tier_mono:
  assumes "l \<le> m" "m \<le> h" "h \<le> c" "v1 \<le> v2"
  shows "severity_rank (tier_of c h m l v1) \<le> severity_rank (tier_of c h m l v2)"
  using assms unfolding rank_tier by auto

lemma recognized_iff:
  "d \<in> fst ` set ECOSYSTEM_RISK_THRESHOLDS \<longleftrightarrow>
     d = ''habitat_loss'' \<or> d = ''annual_decline'' \<or> d = ''transformation''
     \<or> d = ''protection_gap''"
  by (auto simp add: ECOSYSTEM_RISK_THRESHOLDS_def)

lemma level_at_cutoff:
  assumes "d \<in> fst ` set ECOSYSTEM_RISK_THRESHOLDS"
  shows "\<forall>(k, c) \<in> set (dict_get ECOSYSTEM_RISK_THRESHOLDS d []).
           get_risk_level_by_threshold d c = k"
  using assms unfolding recognized_iff
  by (elim disjE) (simp_all add: thresholds_cases level_cases tier_of_def)

lemma level_below_all:
  assumes "d \<in> fst ` set ECOSYSTEM_RISK_THRESHOLDS"
    and "\<forall>(k, c) \<in> set (dict_get ECOSYSTEM_RISK_THRESHOLDS d []). v < c"
  shows "get_risk_level_by_threshold d v = ''minimal''"
  using assms unfolding recognized_iff
  by (elim disjE) (simp_all add: thresholds_cases level_cases tier_of_def)

lemma level_first_match:
  "get_risk_level_by_threshold d v =
    (case find (reaches v (dict_get ECOSYSTEM_RISK_THRESHOLDS d []))
            [''critical'', ''high'', ''moderate'', ''low''] of
       Some k \<Rightarrow> k | None \<Rightarrow> ''minimal'')"
proof -
  consider "d = ''habitat_loss''" | "d = ''annual_decline''" | "d = ''transformation''"
    | "d = ''protection_gap''"
    | "d \<noteq> ''habitat_loss''" "d \<noteq> ''annual_decline''" "d \<noteq> ''transformation''"
      "d \<noteq> ''protection_gap''"
    by blast
  then show ?thesis
    by cases (simp_all add: level_cases tier_of_def thresholds_cases reaches_def)
qed

lemma reaches_inclusive:
  "reaches v th k = (\<exists>c. map_of th k = Some c \<and> c \<le> v)"
  by (simp add: reaches_def split: option.split)

text \<open>
  Claim C2. For every recognized dimension, a value exactly equal to a cutoff of the
  table is classified at that cutoff's tier, and a value below every cutoff is
  \<open>minimal\<close>. For \<open>habitat_loss\<close> the values 0.05, 0.5, 1.0, 2.0, 4.0 and 10.0 are
  classified minimal, low, moderate, high, critical and critical.
\<close>

theorem cutoff_classified_at_its_tier:
  "(d \<in> fst ` set ECOSYSTEM_RISK_THRESHOLDS \<longrightarrow>
      (\<forall>(k, c) \<in> set (dict_get ECOSYSTEM_RISK_THRESHOLDS d []).
         get_risk_level_by_threshold d c = k))
   \<and> (d \<in> fst ` set ECOSYSTEM_RISK_THRESHOLDS \<longrightarrow>
      (\<forall>(k, c) \<in> set (dict_get ECOSYSTEM_RISK_THRESHOLDS d []). v < c) \<longrightarrow>
      get_risk_level_by_threshold d v = ''minimal'')
   \<and> map (get_risk_level_by_threshold ''habitat_loss'') [0.05, 0.5, 1.0, 2.0, 4.0, 10.0] =
       [''minimal'', ''low'', ''moderate'', ''high'', ''critical'', ''critical'']"
  using level_at_cutoff [of d] level_below_all [of d v]
  by (simp add: level_cases tier_of_def)

theorem cutoff_classified_at_its_tier_witness:
  "''habitat_loss'' \<in> fst ` set ECOSYSTEM_RISK_THRESHOLDS
   \<and> (''low'', 0.5) \<in> set (dict_get ECOSYSTEM_RISK_THRESHOLDS ''habitat_loss'' [])
   \<and> get_risk_level_by_threshold ''habitat_loss'' 0.5 = ''low''
   \<and> get_risk_level_by_threshold ''habitat_loss'' 0.05 = ''minimal''"
  using cutoff_classified_at_its_tier [of "''habitat_loss''" "0.05"]
  by (simp add: recognized_iff thresholds_cases)

text \<open>
  Claim C7. For every dimension and any two values \<open>v1 < v2\<close>, the level returned for
  \<open>v2\<close> is at least as severe as the level returned for \<open>v1\<close>, in the order
  critical, high, moderate, low, minimal.
\<close>

theorem classifier_monotone:
  "v1 < v2 \<Longrightarrow>
   severity_rank (get_risk_level_by_threshold d v1)
     \<le> severity_rank (get_risk_level_by_threshold d v2)"
  by (simp add: level_cases tier_mono)

theorem classifier_monotone_witness:
  "(0.5::real) < 2
   \<and> severity_rank (get_risk_level_by_threshold ''habitat_loss'' 0.5) = 1
   \<and> severity_rank (get_risk_level_by_threshold ''habitat_loss'' 2) = 3
   \<and> severity_rank (get_risk_level_by_threshold ''habitat_loss'' 0.5)
       \<le> severity_rank (get_risk_level_by_threshold ''habitat_loss'' 2)"
  using classifier_monotone [of "0.5" 2 "''habitat_loss''"]
  by (simp add: level_cases rank_tier)

text \<open>
  Claim C9. The threshold table has the four dimensions habitat_loss, annual_decline,
  transformation and protection_gap; the cutoffs of each, listed from critical down to
  minimal, are 4.0, 2.0, 1.0, 0.5, 0.1, then 0.4, 0.2, 0.1, 0.05, 0.01, then
  50, 25, 15, 10, 5, then 80, 60, 40, 20, 10, each list strictly decreasing. The
  classifier returns the first of critical, high, moderate, low whose cutoff the value
  reaches, the comparison being inclusive, and minimal when there is none.
\<close>

theorem thresholds_strictly_decreasing:
  "map fst ECOSYSTEM_RISK_THRESHOLDS =
      [''habitat_loss'', ''annual_decline'', ''transformation'', ''protection_gap'']
   \<and> dict_get ECOSYSTEM_RISK_THRESHOLDS ''habitat_loss'' [] =
      [(''critical'', 4.0), (''high'', 2.0), (''moderate'', 1.0), (''low'', 0.5),
       (''minimal'', 0.1)]
   \<and> dict_get ECOSYSTEM_RISK_THRESHOLDS ''annual_decline'' [] =
      [(''critical'', 0.4), (''high'', 0.2), (''moderate'', 0.1), (''low'', 0.05),
       (''minimal'', 0.01)]
   \<and> dict_get ECOSYSTEM_RISK_THRESHOLDS ''transformation'' [] =
      [(''critical'', 50), (''high'', 25), (''moderate'', 15), (''low'', 10),
       (''minimal'', 5)]
   \<and> dict_get ECOSYSTEM_RISK_THRESHOLDS ''protection_gap'' [] =
      [(''critical'', 80), (''high'', 60), (''moderate'', 40), (''low'', 20),
       (''minimal'', 10)]
   \<and> sorted_wrt (>) (map snd (dict_get ECOSYSTEM_RISK_THRESHOLDS d []))
   \<and> get_risk_level_by_threshold d v =
      (case find (reaches v (dict_get ECOSYSTEM_RISK_THRESHOLDS d []))
              [''critical'', ''high'', ''moderate'', ''low''] of
         Some k \<Rightarrow> k | None \<Rightarrow> ''minimal'')
   \<and> reaches v th k = (\<exists>c. map_of th k = Some c \<and> c \<le> v)"
proof -
  have "map fst ECOSYSTEM_RISK_THRESHOLDS =
      [''habitat_loss'', ''annual_decline'', ''transformation'', ''protection_gap'']"
    by (simp add: ECOSYSTEM_RISK_THRESHOLDS_def)
  moreover have "sorted_wrt (>) (map snd (dict_get ECOSYSTEM_RISK_THRESHOLDS d []))"
    by (simp add: thresholds_cases)
  ultimately show ?thesis
    using level_first_match [of d v] reaches_inclusive [of v th k]
    by (simp add: thresholds_cases)
qed

subsection \<open>Defaults for unrecognized codes\<close>

lemma performance_total:
  "\<exists>r. calculate_performance_vs_national l n m = Inr r"
  by (simp add: calculate_performance_vs_national_def py_div_def Let_def case_prod_beta)

text \<open>
  Claim C6. An unrecognized dimension is classified \<open>minimal\<close>; a threat code outside
  CR, EN, VU, NT, LC, the empty string included, gets the Data Deficient entry; a
  protection code outside WP, MP, PP, NP gets the record named Unknown with status
  unknown; and the comparison with the national average, the one function that
  divides, never returns an error.
\<close>

theorem unrecognized_inputs_get_defaults:
  "(d \<notin> {''habitat_loss'', ''annual_decline'', ''transformation'', ''protection_gap''} \<longrightarrow>
      get_risk_level_by_threshold d v = ''minimal'')
   \<and> (t \<notin> {''CR'', ''EN'', ''VU'', ''NT'', ''LC''} \<longrightarrow>
      get_threat_level_info t =
        [(''name'', PStr ''Data Deficient''), (''color'', PStr ''#cccccc''),
         (''priority'', PInt 0),
         (''description'', PStr ''Classification pending or data deficient''),
         (''code'', PStr t)])
   \<and> get_threat_level_info [] =
        [(''name'', PStr ''Data Deficient''), (''color'', PStr ''#cccccc''),
         (''priority'', PInt 0),
         (''description'', PStr ''Classification pending or data deficient''),
         (''code'', PStr [])]
   \<and> (c \<notin> {''WP'', ''MP'', ''PP'', ''NP''} \<longrightarrow>
      get_protection_level_info c =
        [(''name'', PStr ''Unknown''), (''color'', PStr ''#cccccc''),
         (''description'', PStr ''Protection status unknown''),
         (''status'', PStr ''unknown'')])
   \<and> (\<exists>r. calculate_performance_vs_national l n m = Inr r)"
proof -
  have "d \<notin> {''habitat_loss'', ''annual_decline'', ''transformation'', ''protection_gap''}
      \<longrightarrow> get_risk_level_by_threshold d v = ''minimal''"
    by (simp add: level_cases)
  moreover have "t \<notin> {''CR'', ''EN'', ''VU'', ''NT'', ''LC''} \<longrightarrow>
      get_threat_level_info t =
        [(''name'', PStr ''Data Deficient''), (''color'', PStr ''#cccccc''),
         (''priority'', PInt 0),
         (''description'', PStr ''Classification pending or data deficient''),
         (''code'', PStr t)]" for t
    by (simp add: get_threat_level_info_def THREAT_LEVELS_def threat_descriptions_def
        dict_get_def)
  moreover have "c \<notin> {''WP'', ''MP'', ''PP'', ''NP''} \<longrightarrow>
      get_protection_level_info c =
        [(''name'', PStr ''Unknown''), (''color'', PStr ''#cccccc''),
         (''description'', PStr ''Protection status unknown''),
         (''status'', PStr ''unknown'')]"
    by (simp add: get_protection_level_info_def protection_info_def dict_get_def)
  ultimately show ?thesis
    using performance_total [of l n m] by simp
qed

theorem unrecognized_inputs_get_defaults_witness:
  "''soil'' \<notin> {''habitat_loss'', ''annual_decline'', ''transformation'', ''protection_gap''}
   \<and> get_risk_level_by_threshold ''soil'' 99 = ''minimal''
   \<and> ''DD'' \<notin> {''CR'', ''EN'', ''VU'', ''NT'', ''LC''}
   \<and> get_threat_level_info ''DD'' =
        [(''name'', PStr ''Data Deficient''), (''color'', PStr ''#cccccc''),
         (''priority'', PInt 0),
         (''description'', PStr ''Classification pending or data deficient''),
         (''code'', PStr ''DD'')]
   \<and> ''XX'' \<notin> {''WP'', ''MP'', ''PP'', ''NP''}
   \<and> get_protection_level_info ''XX'' =
        [(''name'', PStr ''Unknown''), (''color'', PStr ''#cccccc''),
         (''description'', PStr ''Protection status unknown''),
         (''status'', PStr ''unknown'')]"
  using unrecognized_inputs_get_defaults [of "''soil''" 99 "''DD''" "''XX''" 0 0 "[]"]
  by simp

subsection \<open>Conservation urgency\<close>

lemma iucn_urgency_lookup:
  "dict_get iucn_urgency t 0 =
    (if t = ''CR'' then 4 else if t = ''EN'' then 3 else if t = ''VU'' then 2
     else if t = ''NT'' then 1 else 0)"
  by (simp add: dict_get_def iucn_urgency_def)

lemma protection_urgency_lookup:
  "dict_get protection_urgency c 0 =
    (if c = ''NP'' then 2 else if c = ''PP'' then 1 else if c = ''MP'' then 0
     else if c = ''WP'' then - 1 else 0)"
  by (simp add: dict_get_def protection_urgency_def)

lemma accumulate_if:
  "(if a then s + 3 else if b then s + 2 else if c then s + 1 else s) =
     s + (if a then 3 else if b then 2 else if c then 1 else (0::int))"
  by simp

lemma urgency_unfolded:
  "categorize_ecosystem_urgency t d n c =
    (let s = dict_get iucn_urgency t 0
           + (if d > 0.3 then 3 else if d > 0.1 then 2 else if d > 0.05 then 1 else 0)
           + (if n < 30 then 3 else if n < 50 then 2 else if n < 70 then 1 else 0)
           + dict_get protection_urgency c 0
     in [(''category'', PStr
            (if s \<ge> 8 then ''Emergency'' else if s \<ge> 6 then ''Critical''
             else if s \<ge> 4 then ''High'' else if s \<ge> 2 then ''Moderate'' else ''Low'')),
         (''color'', PStr
            (if s \<ge> 8 then ''#8B0000'' else if s \<ge> 6 then ''#d73027''
             else if s \<ge> 4 then ''#f46d43'' else if s \<ge> 2 then ''#fdae61''
             else ''#abdda4'')),
         (''urgency_score'', PInt s),
         (''timeframe'', PStr
            (if s \<ge> 8 then ''Immediate (0-1 years)''
             else if s \<ge> 6 then ''Urgent (1-3 years)''
             else if s \<ge> 4 then ''High priority (3-5 years)''
             else if s \<ge> 2 then ''Regular monitoring (5-10 years)''
             else ''Stable management'')),
         (''recommended_actions'', PList
            (if s \<ge> 8 then
               [''Emergency intervention'', ''Immediate threat mitigation'',
                ''Expert assessment'']
             else if s \<ge> 6 then
               [''Priority conservation'', ''Threat assessment'', ''Management plan'']
             else if s \<ge> 4 then
               [''Active management'', ''Monitoring program'', ''Threat reduction'']
             else if s \<ge> 2 then
               [''Regular monitoring'', ''Preventive measures'', ''Research needs'']
             else [''Maintain current protection'', ''Periodic assessment'']))])"
proof -
  have step: "(case (if (8::int) \<le> s then (a1, b1, c1, d1) else if 6 \<le> s then (a2, b2, c2, d2)
                     else if 4 \<le> s then (a3, b3, c3, d3) else if 2 \<le> s then (a4, b4, c4, d4)
                     else (a5, b5, c5, d5)) of
                (category, color, timeframe, actions) \<Rightarrow> F category color timeframe actions) =
              F (if 8 \<le> s then a1 else if 6 \<le> s then a2 else if 4 \<le> s then a3
                 else if 2 \<le> s then a4 else a5)
                (if 8 \<le> s then b1 else if 6 \<le> s then b2 else if 4 \<le> s then b3
                 else if 2 \<le> s then b4 else b5)
                (if 8 \<le> s then c1 else if 6 \<le> s then c2 else if 4 \<le> s then c3
                 else if 2 \<le> s then c4 else c5)
                (if 8 \<le> s then d1 else if 6 \<le> s then d2 else if 4 \<le> s then d3
                 else if 2 \<le> s then d4 else d5)"
    for s a1 a2 a3 a4 a5 b1 b2 b3 b4 b5 c1 c2 c3 c4 c5 d1 d2 d3 d4 d5
      and F :: "string \<Rightarrow> string \<Rightarrow> string \<Rightarrow> string list \<Rightarrow> pydict"
    by simp
  show ?thesis
    unfolding categorize_ecosystem_urgency_def Let_def accumulate_if step
    by (simp only: add_0)
qed

lemma urgency_score_bounds:
  "- 1 \<le> dict_get iucn_urgency t 0
           + (if d > 0.3 then 3 else if d > 0.1 then 2 else if d > 0.05 then 1 else 0)
           + (if n < 30 then 3 else if n < 50 then 2 else if n < (70::real) then 1 else 0)
           + dict_get protection_urgency c 0
   \<and> dict_get iucn_urgency t 0
           + (if (d::real) > 0.3 then 3 else if d > 0.1 then 2 else if d > 0.05 then 1 else 0)
           + (if n < 30 then 3 else if n < 50 then 2 else if n < (70::real) then 1 else 0)
           + dict_get protection_urgency c 0 \<le> 12"
proof -
  have "0 \<le> dict_get iucn_urgency t 0 \<and> dict_get iucn_urgency t 0 \<le> 4"
    by (simp add: iucn_urgency_lookup)
  moreover have "- 1 \<le> dict_get protection_urgency c 0 \<and> dict_get protection_urgency c 0 \<le> 2"
    by (simp add: protection_urgency_lookup)
  moreover have "0 \<le> (if d > 0.3 then 3 else if d > 0.1 then 2 else if d > 0.05 then 1 else (0::int))
     \<and> (if d > 0.3 then 3 else if d > 0.1 then 2 else if d > 0.05 then 1 else (0::int)) \<le> 3"
    by simp
  moreover have "0 \<le> (if n < 30 then 3 else if n < 50 then 2 else if n < 70 then 1 else (0::int))
     \<and> (if n < 30 then 3 else if n < 50 then 2 else if n < 70 then 1 else (0::int)) \<le> 3"
    by simp
  ultimately show ?thesis by linarith
qed

text \<open>
  Claim C3. The urgency score is the sum of the threat contribution (CR 4, EN 3, VU 2,
  NT 1, LC 0, other 0), the decline contribution (above 0.3 gives 3, above 0.1 gives 2,
  above 0.05 gives 1, else 0), the habitat contribution (below 30 gives 3, below 50
  gives 2, below 70 gives 1, else 0) and the protection contribution (NP 2, PP 1, MP 0,
  WP -1, other 0); it lies between -1 and 12. The category is Emergency from 8,
  Critical from 6, High from 4, Moderate from 2 and Low below, each with its fixed
  colour, timeframe and list of two or three actions. The code LC with no decline,
  80 percent natural habitat and protection WP scores -1 and is Low; the code CR with
  decline 0.35, 20 percent natural habitat and protection NP scores 12 and is Emergency.
\<close>

theorem urgency_score_and_category:
  "(\<exists>s. s = (if t = ''CR'' then 4 else if t = ''EN'' then 3 else if t = ''VU'' then 2
              else if t = ''NT'' then 1 else if t = ''LC'' then 0 else 0)
           + (if d > 0.3 then 3 else if d > 0.1 then 2 else if d > 0.05 then 1 else 0)
           + (if n < 30 then 3 else if n < 50 then 2 else if n < 70 then 1 else 0)
           + (if c = ''NP'' then 2 else if c = ''PP'' then 1 else if c = ''MP'' then 0
              else if c = ''WP'' then - 1 else 0)
      \<and> - 1 \<le> s \<and> s \<le> 12
      \<and> categorize_ecosystem_urgency t d n c =
        [(''category'', PStr
            (if s \<ge> 8 then ''Emergency'' else if s \<ge> 6 then ''Critical''
             else if s \<ge> 4 then ''High'' else if s \<ge> 2 then ''Moderate'' else ''Low'')),
         (''color'', PStr
            (if s \<ge> 8 then ''#8B0000'' else if s \<ge> 6 then ''#d73027''
             else if s \<ge> 4 then ''#f46d43'' else if s \<ge> 2 then ''#fdae61''
             else ''#abdda4'')),
         (''urgency_score'', PInt s),
         (''timeframe'', PStr
            (if s \<ge> 8 then ''Immediate (0-1 years)''
             else if s \<ge> 6 then ''Urgent (1-3 years)''
             else if s \<ge> 4 then ''High priority (3-5 years)''
             else if s \<ge> 2 then ''Regular monitoring (5-10 years)''
             else ''Stable management'')),
         (''recommended_actions'', PList
            (if s \<ge> 8 then
               [''Emergency intervention'', ''Immediate threat mitigation'',
                ''Expert assessment'']
             else if s \<ge> 6 then
               [''Priority conservation'', ''Threat assessment'', ''Management plan'']
             else if s \<ge> 4 then
               [''Active management'', ''Monitoring program'', ''Threat reduction'']
             else if s \<ge> 2 then
               [''Regular monitoring'', ''Preventive measures'', ''Research needs'']
             else [''Maintain current protection'', ''Periodic assessment'']))])
   \<and> (\<exists>acts. map_of (categorize_ecosystem_urgency t d n c) ''recommended_actions''
                 = Some (PList acts)
              \<and> (length acts = 2 \<or> length acts = 3))
   \<and> categorize_ecosystem_urgency ''LC'' 0 80 ''WP'' =
        [(''category'', PStr ''Low''), (''color'', PStr ''#abdda4''),
         (''urgency_score'', PInt (- 1)), (''timeframe'', PStr ''Stable management''),
         (''recommended_actions'',
          PList [''Maintain current protection'', ''Periodic assessment''])]
   \<and> categorize_ecosystem_urgency ''CR'' 0.35 20 ''NP'' =
        [(''category'', PStr ''Emergency''), (''color'', PStr ''#8B0000''),
         (''urgency_score'', PInt 12), (''timeframe'', PStr ''Immediate (0-1 years)''),
         (''recommended_actions'',
          PList [''Emergency intervention'', ''Immediate threat mitigation'',
                 ''Expert assessment''])]"
proof (intro conjI)
  define s where "s = dict_get iucn_urgency t 0
           + (if d > 0.3 then 3 else if d > 0.1 then 2 else if d > 0.05 then 1 else 0)
           + (if n < 30 then 3 else if n < 50 then 2 else if n < 70 then 1 else 0)
           + dict_get protection_urgency c 0"
  have bounds: "- 1 \<le> s \<and> s \<le> 12"
    unfolding s_def by (rule urgency_score_bounds)
  have result: "categorize_ecosystem_urgency t d n c =
        [(''category'', PStr
            (if s \<ge> 8 then ''Emergency'' else if s \<ge> 6 then ''Critical''
             else if s \<ge> 4 then ''High'' else if s \<ge> 2 then ''Moderate'' else ''Low'')),
         (''color'', PStr
            (if s \<ge> 8 then ''#8B0000'' else if s \<ge> 6 then ''#d73027''
             else if s \<ge> 4 then ''#f46d43'' else if s \<ge> 2 then ''#fdae61''
             else ''#abdda4'')),
         (''urgency_score'', PInt s),
         (''timeframe'', PStr
            (if s \<ge> 8 then ''Immediate (0-1 years)''
             else if s \<ge> 6 then ''Urgent (1-3 years)''
             else if s \<ge> 4 then ''High priority (3-5 years)''
             else if s \<ge> 2 then ''Regular monitoring (5-10 years)''
             else ''Stable management'')),
         (''recommended_actions'', PList
            (if s \<ge> 8 then
               [''Emergency intervention'', ''Immediate threat mitigation'',
                ''Expert assessment'']
             else if s \<ge> 6 then
               [''Priority conservation'', ''Threat assessment'', ''Management plan'']
             else if s \<ge> 4 then
               [''Active management'', ''Monitoring program'', ''Threat reduction'']
             else if s \<ge> 2 then
               [''Regular monitoring'', ''Preventive measures'', ''Research needs'']
             else [''Maintain current protection'', ''Periodic assessment'']))]"
    unfolding s_def urgency_unfolded Let_def by (rule refl)
  have sum: "s = (if t = ''CR'' then 4 else if t = ''EN'' then 3 else if t = ''VU'' then 2
              else if t = ''NT'' then 1 else if t = ''LC'' then 0 else 0)
           + (if d > 0.3 then 3 else if d > 0.1 then 2 else if d > 0.05 then 1 else 0)
           + (if n < 30 then 3 else if n < 50 then 2 else if n < 70 then 1 else 0)
           + (if c = ''NP'' then 2 else if c = ''PP'' then 1 else if c = ''MP'' then 0
              else if c = ''WP'' then - 1 else 0)"
    unfolding s_def iucn_urgency_lookup protection_urgency_lookup by simp
  from sum bounds result
  show "\<exists>s. s = (if t = ''CR'' then 4 else if t = ''EN'' then 3 else if t = ''VU'' then 2
              else if t = ''NT'' then 1 else if t = ''LC'' then 0 else 0)
           + (if d > 0.3 then 3 else if d > 0.1 then 2 else if d > 0.05 then 1 else 0)
           + (if n < 30 then 3 else if n < 50 then 2 else if n < 70 then 1 else 0)
           + (if c = ''NP'' then 2 else if c = ''PP'' then 1 else if c = ''MP'' then 0
              else if c = ''WP'' then - 1 else 0)
      \<and> - 1 \<le> s \<and> s \<le> 12
      \<and> categorize_ecosystem_urgency t d n c =
        [(''category'', PStr
            (if s \<ge> 8 then ''Emergency'' else if s \<ge> 6 then ''Critical''
             else if s \<ge> 4 then ''High'' else if s \<ge> 2 then ''Moderate'' else ''Low'')),
         (''color'', PStr
            (if s \<ge> 8 then ''#8B0000'' else if s \<ge> 6 then ''#d73027''
             else if s \<ge> 4 then ''#f46d43'' else if s \<ge> 2 then ''#fdae61''
             else ''#abdda4'')),
         (''urgency_score'', PInt s),
         (''timeframe'', PStr
            (if s \<ge> 8 then ''Immediate (0-1 years)''
             else if s \<ge> 6 then ''Urgent (1-3 years)''
             else if s \<ge> 4 then ''High priority (3-5 years)''
             else if s \<ge> 2 then ''Regular monitoring (5-10 years)''
             else ''Stable management'')),
         (''recommended_actions'', PList
            (if s \<ge> 8 then
               [''Emergency intervention'', ''Immediate threat mitigation'',
                ''Expert assessment'']
             else if s \<ge> 6 then
               [''Priority conservation'', ''Threat assessment'', ''Management plan'']
             else if s \<ge> 4 then
               [''Active management'', ''Monitoring program'', ''Threat reduction'']
             else if s \<ge> 2 then
               [''Regular monitoring'', ''Preventive measures'', ''Research needs'']
             else [''Maintain current protection'', ''Periodic assessment'']))]"
    by blast
  show "\<exists>acts. map_of (categorize_ecosystem_urgency t d n c) ''recommended_actions''
                 = Some (PList acts)
              \<and> (length acts = 2 \<or> length acts = 3)"
    unfolding result by simp
  show "categorize_ecosystem_urgency ''LC'' 0 80 ''WP'' =
        [(''category'', PStr ''Low''), (''color'', PStr ''#abdda4''),
         (''urgency_score'', PInt (- 1)), (''timeframe'', PStr ''Stable management''),
         (''recommended_actions'',
          PList [''Maintain current protection'', ''Periodic assessment''])]"
    by (simp add: urgency_unfolded iucn_urgency_lookup protection_urgency_lookup)
  show "categorize_ecosystem_urgency ''CR'' 0.35 20 ''NP'' =
        [(''category'', PStr ''Emergency''), (''color'', PStr ''#8B0000''),
         (''urgency_score'', PInt 12), (''timeframe'', PStr ''Immediate (0-1 years)''),
         (''recommended_actions'',
          PList [''Emergency intervention'', ''Immediate threat mitigation'',
                 ''Expert assessment''])]"
    by (simp add: urgency_unfolded iucn_urgency_lookup protection_urgency_lookup)
qed

subsection \<open>Performance against the national average\<close>

lemma performance_nonzero:
  assumes "n \<noteq> 0"
  shows "calculate_performance_vs_national l n m =
    Inr [(''category'', PStr
           (if m \<in> {''threat'', ''decline'', ''transformation'', ''loss''} then
              (if l / n \<le> 0.7 then ''Much Better'' else if l / n \<le> 0.9 then ''Better''
               else if l / n \<le> 1.1 then ''Similar'' else if l / n \<le> 1.3 then ''Worse''
               else ''Much Worse'')
            else if m \<in> {''habitat'', ''protection'', ''natural''} then
              (if l / n \<ge> 1.3 then ''Much Better'' else if l / n \<ge> 1.1 then ''Better''
               else if l / n \<ge> 0.9 then ''Similar'' else if l / n \<ge> 0.7 then ''Worse''
               else ''Much Worse'')
            else
              (if \<bar>l / n - 1\<bar> \<le> 0.1 then ''Similar''
               else if \<bar>l / n - 1\<bar> \<le> 0.3 then ''Moderate Difference''
               else ''Large Difference''))),
         (''color'', PStr
           (if m \<in> {''threat'', ''decline'', ''transformation'', ''loss''} then
              (if l / n \<le> 0.7 then ''#2166ac'' else if l / n \<le> 0.9 then ''#abdda4''
               else if l / n \<le> 1.1 then ''#ffffbf'' else if l / n \<le> 1.3 then ''#fdae61''
               else ''#d73027'')
            else if m \<in> {''habitat'', ''protection'', ''natural''} then
              (if l / n \<ge> 1.3 then ''#2166ac'' else if l / n \<ge> 1.1 then ''#abdda4''
               else if l / n \<ge> 0.9 then ''#ffffbf'' else if l / n \<ge> 0.7 then ''#fdae61''
               else ''#d73027'')
            else
              (if \<bar>l / n - 1\<bar> \<le> 0.1 then ''#ffffbf''
               else if \<bar>l / n - 1\<bar> \<le> 0.3 then ''#fdae61''
               else ''#d73027''))),
         (''delta'', PFloat (l - n)),
         (''delta_formatted'', PStr
           ((if l - n > 0 then ''+'' else [])
            @ format_fixed (if \<bar>l - n\<bar> \<ge> 1 then 1 else 2) (l - n) @ ''pp'')),
         (''performance_ratio'', PFloat (l / n)),
         (''local_value'', PFloat l),
         (''national_value'', PFloat n)]"
proof -
  have pair: "(case (if a then (if a1 then (x1, y1) else if a2 then (x2, y2)
                              else if a3 then (x3, y3) else if a4 then (x4, y4) else (x5, y5))
                     else if b then (if b1 then (x1, y1) else if b2 then (x2, y2)
                              else if b3 then (x3, y3) else if b4 then (x4, y4) else (x5, y5))
                     else (if c1 then (x3, y3) else if c2 then (x6, y4) else (x7, y5))) of
                (category, color) \<Rightarrow> F category color) =
              F (if a then (if a1 then x1 else if a2 then x2 else if a3 then x3
                            else if a4 then x4 else x5)
                 else if b then (if b1 then x1 else if b2 then x2 else if b3 then x3
                            else if b4 then x4 else x5)
                 else (if c1 then x3 else if c2 then x6 else x7))
                (if a then (if a1 then y1 else if a2 then y2 else if a3 then y3
                            else if a4 then y4 else y5)
                 else if b then (if b1 then y1 else if b2 then y2 else if b3 then y3
                            else if b4 then y4 else y5)
                 else (if c1 then y3 else if c2 then y4 else y5))"
    for a a1 a2 a3 a4 b b1 b2 b3 b4 c1 c2 and x1 x2 x3 x4 x5 x6 x7 y1 y2 y3 y4 y5 :: string
      and F :: "string \<Rightarrow> string \<Rightarrow> py_error + pydict"
    by simp
  have fmt: "(if c then s @ format_fixed 1 x @ t else s @ format_fixed 2 x @ t) =
             s @ format_fixed (if c then 1 else 2) x @ t" for c s x t
    by simp
  have sets: "set [''habitat'', ''protection'', ''natural''] = {''habitat'', ''protection'', ''natural''}"
    "set [''threat'', ''decline'', ''transformation'', ''loss''] =
       {''threat'', ''decline'', ''transformation'', ''loss''}"
    by simp_all
  have div: "py_div l n = Inr (l / n)"
    using assms by (simp add: py_div_def)
  show ?thesis
    unfolding calculate_performance_vs_national_def Let_def div sum.case pair fmt sets
    using assms by (simp only: if_False)
qed

lemma performance_zero:
  "calculate_performance_vs_national l 0 m =
     Inr [(''category'', PStr ''No Comparison''), (''color'', PStr ''#cccccc''),
          (''delta'', PInt 0), (''delta_formatted'', PStr ''N/A''),
          (''performance_ratio'', PFloat 1.0)]"
  by (simp add: calculate_performance_vs_national_def)

lemma digit_char_is_digit: "digit_char d \<in> set ''0123456789''"
  unfolding digit_char_def by (rule nth_mem) simp

lemma decimal_digits: "set (decimal n) \<subseteq> set ''0123456789''"
proof (induction n rule: decimal.induct)
  case (1 n)
  show ?case
  proof (cases "n < 10")
    case True
    then have "decimal n = [digit_char n]"
      by (subst decimal.simps) simp
    then show ?thesis
      using digit_char_is_digit [of n] by simp
  next
    case False
    then have "decimal n = decimal (n div 10) @ [digit_char (n mod 10)]"
      by (subst decimal.simps) simp
    then show ?thesis
      using "1.IH" [OF False] digit_char_is_digit [of "n mod 10"] by simp
  qed
qed

lemma decimal_nonempty: "decimal n \<noteq> []"
  by (subst decimal.simps) simp

lemma zero_pad_digits: "set (zero_pad w (decimal n)) \<subseteq> set ''0123456789''"
  using decimal_digits [of n] by (auto simp add: zero_pad_def)

lemma format_fixed_chars:
  "set (format_fixed p x) \<subseteq> set ''+-.0123456789'' \<and> format_fixed p x \<noteq> []"
proof -
  have sub: "set ''0123456789'' \<subseteq> set ''+-.0123456789''"
    by simp
  have "set (decimal a) \<subseteq> set ''+-.0123456789''" for a
    using decimal_digits [of a] sub by (rule subset_trans)
  moreover have "set (zero_pad w (decimal a)) \<subseteq> set ''+-.0123456789''" for w a
    using zero_pad_digits [of w a] sub by (rule subset_trans)
  ultimately show ?thesis
    by (auto simp add: format_fixed_def Let_def)
qed

lemma delta_formatted_numeric:
  "set ((if c then ''+'' else []) @ format_fixed p x) \<subseteq> set ''+-.0123456789''
   \<and> (if c then ''+'' else []) @ format_fixed p x \<noteq> []"
  using format_fixed_chars [of p x] by auto



text \<open>
  Claim C5. With a national value of zero the result is the neutral one, with category
  No Comparison, delta 0 and performance ratio 1.0, whatever the local value and the
  metric type. The division, which would fail on that divisor, is not reached: the
  function returns a result and no error on every input.
\<close>

theorem zero_national_is_guarded:
  "calculate_performance_vs_national l 0 m =
     Inr [(''category'', PStr ''No Comparison''), (''color'', PStr ''#cccccc''),
          (''delta'', PInt 0), (''delta_formatted'', PStr ''N/A''),
          (''performance_ratio'', PFloat 1.0)]
   \<and> py_div l 0 = Inl ZeroDivisionError
   \<and> (\<forall>l' n' m'. \<exists>r. calculate_performance_vs_national l' n' m' = Inr r)
   \<and> (\<forall>l' n' m'. calculate_performance_vs_national l' n' m' \<noteq> Inl ZeroDivisionError)
   \<and> (\<exists>r. calculate_performance_vs_national 10 0 ''threat'' = Inr r
         \<and> map_of r ''category'' = Some (PStr ''No Comparison'')
         \<and> map_of r ''delta'' = Some (PInt 0))"
proof -
  have total: "\<exists>r. calculate_performance_vs_national l' n' m' = Inr r" for l' n' m'
    by (rule performance_total)
  have "calculate_performance_vs_national l' n' m' \<noteq> Inl ZeroDivisionError" for l' n' m'
    using total [of l' n' m'] by auto
  with total show ?thesis
    by (simp add: performance_zero py_div_def)
qed

text \<open>
  Claim C10. The two branches return records of different shapes. With a national
  value of zero the keys are category, color, delta, delta_formatted and
  performance_ratio, and delta_formatted is the string N/A. Otherwise the record has
  the two further keys local_value and national_value, which echo the inputs, and
  delta_formatted is a number followed by pp. So the result for a zero national value
  has no local_value and no national_value.
\<close>

theorem performance_result_shape:
  "(n = 0 \<longrightarrow>
      (\<exists>r. calculate_performance_vs_national l n m = Inr r
         \<and> map fst r =
             [''category'', ''color'', ''delta'', ''delta_formatted'', ''performance_ratio'']
         \<and> map_of r ''delta_formatted'' = Some (PStr ''N/A'')))
   \<and> (n \<noteq> 0 \<longrightarrow>
      (\<exists>r s. calculate_performance_vs_national l n m = Inr r
         \<and> map fst r =
             [''category'', ''color'', ''delta'', ''delta_formatted'', ''performance_ratio'',
              ''local_value'', ''national_value'']
         \<and> map_of r ''local_value'' = Some (PFloat l)
         \<and> map_of r ''national_value'' = Some (PFloat n)
         \<and> map_of r ''delta_formatted'' = Some (PStr (s @ ''pp''))
         \<and> s \<noteq> [] \<and> set s \<subseteq> set ''+-.0123456789''))
   \<and> (\<exists>r. calculate_performance_vs_national 10 0 ''threat'' = Inr r
         \<and> map_of r ''local_value'' = None \<and> map_of r ''national_value'' = None)
   \<and> (\<exists>r. calculate_performance_vs_national 8 10 ''threat'' = Inr r
         \<and> map_of r ''local_value'' = Some (PFloat 8)
         \<and> map_of r ''national_value'' = Some (PFloat 10))"
proof (intro conjI impI)
  assume "n = 0"
  then show "\<exists>r. calculate_performance_vs_national l n m = Inr r
         \<and> map fst r =
             [''category'', ''color'', ''delta'', ''delta_formatted'', ''performance_ratio'']
         \<and> map_of r ''delta_formatted'' = Some (PStr ''N/A'')"
    by (simp add: performance_zero)
next
  assume nz: "n \<noteq> 0"
  define s where "s = (if l - n > 0 then ''+'' else [])
            @ format_fixed (if \<bar>l - n\<bar> \<ge> 1 then 1 else 2) (l - n)"
  have numeric: "s \<noteq> [] \<and> set s \<subseteq> set ''+-.0123456789''"
    unfolding s_def using delta_formatted_numeric by blast
  obtain r where r: "calculate_performance_vs_national l n m = Inr r" 
    using performance_total by blast
  have shape: "map fst r =
             [''category'', ''color'', ''delta'', ''delta_formatted'', ''performance_ratio'',
              ''local_value'', ''national_value'']
         \<and> map_of r ''local_value'' = Some (PFloat l)
         \<and> map_of r ''national_value'' = Some (PFloat n)
         \<and> map_of r ''delta_formatted'' = Some (PStr (s @ ''pp''))"
    using r unfolding performance_nonzero [OF nz] s_def by auto
  show "\<exists>r s. calculate_performance_vs_national l n m = Inr r
         \<and> map fst r =
             [''category'', ''color'', ''delta'', ''delta_formatted'', ''performance_ratio'',
              ''local_value'', ''national_value'']
         \<and> map_of r ''local_value'' = Some (PFloat l)
         \<and> map_of r ''national_value'' = Some (PFloat n)
         \<and> map_of r ''delta_formatted'' = Some (PStr (s @ ''pp''))
         \<and> s \<noteq> [] \<and> set s \<subseteq> set ''+-.0123456789''"
    using r shape numeric by - (rule exI [of _ r], rule exI [of _ s], simp)
next
  show "\<exists>r. calculate_performance_vs_national 10 0 ''threat'' = Inr r
         \<and> map_of r ''local_value'' = None \<and> map_of r ''national_value'' = None"
    by (simp add: performance_zero)
next
  show "\<exists>r. calculate_performance_vs_national 8 10 ''threat'' = Inr r
         \<and> map_of r ''local_value'' = Some (PFloat 8)
         \<and> map_of r ''national_value'' = Some (PFloat 10)"
    by (simp add: performance_nonzero)
qed

theorem performance_result_shape_witness:
  "(\<exists>r. calculate_performance_vs_national 3 0 ''loss'' = Inr r
      \<and> map fst r =
          [''category'', ''color'', ''delta'', ''delta_formatted'', ''performance_ratio'']
      \<and> map_of r ''delta_formatted'' = Some (PStr ''N/A''))
   \<and> (5::real) \<noteq> 0
   \<and> (\<exists>r s. calculate_performance_vs_national 6 5 ''loss'' = Inr r
      \<and> map fst r =
          [''category'', ''color'', ''delta'', ''delta_formatted'', ''performance_ratio'',
           ''local_value'', ''national_value'']
      \<and> map_of r ''local_value'' = Some (PFloat 6)
      \<and> map_of r ''national_value'' = Some (PFloat 5)
      \<and> map_of r ''delta_formatted'' = Some (PStr (s @ ''pp''))
      \<and> s \<noteq> [] \<and> set s \<subseteq> set ''+-.0123456789'')"
  using performance_result_shape [of 0 3 "''loss''"] performance_result_shape [of 5 6 "''loss''"]
  by simp

lemma format_examples:
  "format_fixed 1 (- 2) = ''-2.0'' \<and> format_fixed 1 2 = ''2.0''
   \<and> format_fixed 2 (1 / 8) = ''0.12'' \<and> format_fixed 2 (- (1 / 1000)) = ''-0.00''"
  by code_simp

end
